theory Spec2Isabelle
  imports Main "HOL-Library.Word"
begin

unbundle bit_operations_syntax

section \<open>C integer types\<close>

text \<open>
  The driver computes on \<open>uint8_t\<close>, \<open>uint16_t\<close> and, after the integer promotions, on
  \<open>int\<close> and \<open>unsigned int\<close>. Both are taken to be 32 bits wide, as on the 32-bit
  microcontrollers the driver is written for. Every macro constant with a \<open>U\<close> suffix is an
  \<open>unsigned int\<close>. The bitwise operators act alike on \<open>int\<close> and \<open>unsigned int\<close>
  (two's complement), so one 32-bit word type serves for both, and every conversion of
  the source is a \<open>ucast\<close> in the model.
\<close>

type_synonym u8 = "8 word"
type_synonym u16 = "16 word"
type_synonym uint = "32 word"

section \<open>Register map and constants (max17048.c, lines 7 to 58)\<close>

text \<open>
  The bus address and the register addresses are only ever passed for \<open>uint8_t\<close>
  parameters; all are below 256, so they are given at that type. The bit positions
  (\<open>..._POS\<close>) are only ever shift counts, so they are natural numbers.
\<close>

definition MAX_ADDR :: u8 where "MAX_ADDR = 0x36"

definition VCELL :: u8 where "VCELL = 0x02"
definition SOC :: u8 where "SOC = 0x04"
definition MODE :: u8 where "MODE = 0x06"
definition VERSION :: u8 where "VERSION = 0x08"
definition HIBRT :: u8 where "HIBRT = 0x0A"
definition CONFIG :: u8 where "CONFIG = 0x0C"
definition VALRT :: u8 where "VALRT = 0x14"
definition CRATE :: u8 where "CRATE = 0x16"
definition VRESET_ID :: u8 where "VRESET_ID = 0x18"
definition STATUS :: u8 where "STATUS = 0x1A"

definition VERSION_MSK :: uint where "VERSION_MSK = 0xFFF0"
definition PART_NUMBER :: uint where "PART_NUMBER = 0x0010"

definition BAT_LOW_POS :: nat where "BAT_LOW_POS = 0"
definition BAT_LOW_MSK :: uint where "BAT_LOW_MSK = push_bit BAT_LOW_POS 0x001F"
definition BAT_LOW_MIN :: uint where "BAT_LOW_MIN = 1"
definition BAT_LOW_MAX :: uint where "BAT_LOW_MAX = 32"

definition ALRT_BIT_POS :: nat where "ALRT_BIT_POS = 5"
definition ALRT_BIT_MSK :: uint where "ALRT_BIT_MSK = push_bit ALRT_BIT_POS 0x0001"

definition VALRT_MAX_POS :: nat where "VALRT_MAX_POS = 0"
definition VALRT_MAX_MSK :: uint where "VALRT_MAX_MSK = push_bit VALRT_MAX_POS 0x00FF"
definition VALRT_MIN_POS :: nat where "VALRT_MIN_POS = 8"
definition VALRT_MIN_MSK :: uint where "VALRT_MIN_MSK = push_bit VALRT_MIN_POS 0x00FF"
definition VALRT_RESOLUTION :: uint where "VALRT_RESOLUTION = 20"

definition ALRT_STATUS_POS :: nat where "ALRT_STATUS_POS = 8"
definition ALRT_STATUS_MSK :: uint where "ALRT_STATUS_MSK = push_bit ALRT_STATUS_POS 0x003F"

text \<open>\<^verbatim>\<open>#define VCELL_TO_MV(vcell) ((vcell * 5U) >> 6U)\<close>, on the promoted operand.\<close>

definition VCELL_TO_MV :: "uint \<Rightarrow> uint" where
  "VCELL_TO_MV vcell = drop_bit 6 (vcell * 5)"

text \<open>
  \<^verbatim>\<open>#define SWAP16(x) ((uint16_t)(((x) << 8U) | ((x) >> 8U)))\<close>: the operand is a
  \<open>uint16_t\<close> at both uses; it is promoted, shifted both ways, and cut back to 16 bits.
\<close>

definition SWAP16 :: "u16 \<Rightarrow> u16" where
  "SWAP16 x = ucast (push_bit 8 (ucast x :: uint) OR drop_bit 8 (ucast x :: uint))"

text \<open>The alert flags of max17048.h, values of type \<open>max17048_alert_t\<close> (\<open>uint8_t\<close>).\<close>

definition MAX_ALERT_RESET :: u8 where "MAX_ALERT_RESET = 0x01"
definition MAX_ALERT_OVERVOLTED :: u8 where "MAX_ALERT_OVERVOLTED = 0x02"
definition MAX_ALERT_UNDERVOLTED :: u8 where "MAX_ALERT_UNDERVOLTED = 0x04"
definition MAX_ALERT_VOLTAGE_RESET :: u8 where "MAX_ALERT_VOLTAGE_RESET = 0x80"
definition MAX_ALERT_SOC_LOW :: u8 where "MAX_ALERT_SOC_LOW = 0x10"
definition MAX_ALERT_SOC_CHANGE :: u8 where "MAX_ALERT_SOC_CHANGE = 0x20"

section \<open>The bus transport\<close>

text \<open>
  \<open>i2c_master_read_u16\<close> and \<open>i2c_master_write_u16\<close> are declared in i2c.h, outside the
  driver. They are a parameter of the model: any two functions over any transport state
  \<open>'s\<close>. A read yields the 16-bit value it stored through its output pointer, or \<open>None\<close>
  when it reports failure; a write yields its boolean result.

  Beside the transport's own state, the model keeps the list of transport calls made so
  far, oldest first, so that "no transport call is issued" and "the register is not
  touched" are statements about that list.
\<close>

datatype i2c_call = I2C_Read u8 u8 | I2C_Write u8 u8 u16

record 's i2c =
  i2c_master_read_u16 :: "u8 \<Rightarrow> u8 \<Rightarrow> 's \<Rightarrow> u16 option \<times> 's"
  i2c_master_write_u16 :: "u8 \<Rightarrow> u8 \<Rightarrow> u16 \<Rightarrow> 's \<Rightarrow> bool \<times> 's"

record 's port =
  hw :: 's
  calls :: "i2c_call list"

fun call_reg :: "i2c_call \<Rightarrow> u8" where
  "call_reg (I2C_Read addr reg) = reg"
| "call_reg (I2C_Write addr reg v) = reg"

section \<open>Register access (max17048.c, lines 60 to 81)\<close>

definition read_reg :: "'s i2c \<Rightarrow> u8 \<Rightarrow> 's port \<Rightarrow> u16 option \<times> 's port" where
  "read_reg T reg p =
     (case i2c_master_read_u16 T MAX_ADDR reg (hw p) of
        (None, h) \<Rightarrow> (None, \<lparr>hw = h, calls = calls p @ [I2C_Read MAX_ADDR reg]\<rparr>)
      | (Some out, h) \<Rightarrow>
          (Some (SWAP16 out), \<lparr>hw = h, calls = calls p @ [I2C_Read MAX_ADDR reg]\<rparr>))"

definition write_reg :: "'s i2c \<Rightarrow> u8 \<Rightarrow> u16 \<Rightarrow> 's port \<Rightarrow> bool \<times> 's port" where
  "write_reg T reg data p =
     (case i2c_master_write_u16 T MAX_ADDR reg (SWAP16 data) (hw p) of
        (ok, h) \<Rightarrow> (ok, \<lparr>hw = h, calls = calls p @ [I2C_Write MAX_ADDR reg (SWAP16 data)]\<rparr>))"

text \<open>
  \<^verbatim>\<open>buf = (buf & ~mask) | (data & mask);\<close> is computed on the promoted operands and
  stored back into the \<open>uint16_t\<close> \<open>buf\<close>. The parameter \<open>mask\<close> is written \<open>msk\<close>,
  since \<open>mask\<close> is a constant of the word library.
\<close>

definition modify_reg :: "'s i2c \<Rightarrow> u8 \<Rightarrow> u16 \<Rightarrow> u16 \<Rightarrow> 's port \<Rightarrow> bool \<times> 's port" where
  "modify_reg T reg data msk p =
     (case read_reg T reg p of
        (None, p1) \<Rightarrow> (False, p1)
      | (Some buf, p1) \<Rightarrow>
          write_reg T reg
            (ucast (((ucast buf :: uint) AND NOT (ucast msk)) OR (ucast data AND ucast msk)))
            p1)"

section \<open>The public operations (max17048.c, lines 83 to 175)\<close>

text \<open>
  An output pointer is \<open>None\<close> for a null pointer and \<open>Some a\<close> for the address \<open>a\<close> of
  the caller's variable. A getter returns its boolean result, the store it made through
  the pointer (\<open>Some (a, v)\<close> for \<^verbatim>\<open>*a = v\<close>, \<open>None\<close> when it made none), and the port.
\<close>

definition max17048_is_present :: "'s i2c \<Rightarrow> 's port \<Rightarrow> bool \<times> 's port" where
  "max17048_is_present T p =
     (case read_reg T VERSION p of
        (None, p1) \<Rightarrow> (False, p1)
      | (Some data, p1) \<Rightarrow> ((ucast data AND VERSION_MSK) = PART_NUMBER, p1))"

definition max17048_get_vcell ::
  "'s i2c \<Rightarrow> nat option \<Rightarrow> 's port \<Rightarrow> bool \<times> (nat \<times> u16) option \<times> 's port" where
  "max17048_get_vcell T mv p =
     (case mv of
        None \<Rightarrow> (False, None, p)
      | Some a \<Rightarrow>
          (case read_reg T VCELL p of
             (None, p1) \<Rightarrow> (False, None, p1)
           | (Some data, p1) \<Rightarrow> (True, Some (a, ucast (VCELL_TO_MV (ucast data))), p1)))"

definition max17048_get_soc ::
  "'s i2c \<Rightarrow> nat option \<Rightarrow> 's port \<Rightarrow> bool \<times> (nat \<times> u8) option \<times> 's port" where
  "max17048_get_soc T percent p =
     (case percent of
        None \<Rightarrow> (False, None, p)
      | Some a \<Rightarrow>
          (case read_reg T SOC p of
             (None, p1) \<Rightarrow> (False, None, p1)
           | (Some data, p1) \<Rightarrow> (True, Some (a, ucast (drop_bit 8 (ucast data :: uint))), p1)))"

definition max17048_set_bat_low_soc :: "'s i2c \<Rightarrow> u8 \<Rightarrow> 's port \<Rightarrow> bool \<times> 's port" where
  "max17048_set_bat_low_soc T percent p =
     (if (ucast percent :: uint) < BAT_LOW_MIN \<or> (ucast percent :: uint) > BAT_LOW_MAX
      then (False, p)
      else modify_reg T CONFIG
             (ucast ((BAT_LOW_MAX - (ucast percent mod BAT_LOW_MAX)) AND BAT_LOW_MSK))
             (ucast BAT_LOW_MSK) p)"

definition max17048_set_undervolted_voltage :: "'s i2c \<Rightarrow> u16 \<Rightarrow> 's port \<Rightarrow> bool \<times> 's port" where
  "max17048_set_undervolted_voltage T mv p =
     modify_reg T VALRT
       (ucast (push_bit VALRT_MIN_POS ((ucast mv :: uint) div VALRT_RESOLUTION) AND VALRT_MIN_MSK))
       (ucast VALRT_MIN_MSK) p"

definition max17048_set_overvolted_voltage :: "'s i2c \<Rightarrow> u16 \<Rightarrow> 's port \<Rightarrow> bool \<times> 's port" where
  "max17048_set_overvolted_voltage T mv p =
     modify_reg T VALRT
       (ucast (push_bit VALRT_MAX_POS ((ucast mv :: uint) div VALRT_RESOLUTION) AND VALRT_MAX_MSK))
       (ucast VALRT_MAX_MSK) p"

text \<open>
  \<^verbatim>\<open>if (ok) ok = modify_reg(STATUS, ...); if (ok) ok = modify_reg(CONFIG, ...);\<close> with
  \<open>ok\<close> initially true: the first step always runs, the second only after it succeeded.
\<close>

definition max17048_clear_alerts :: "'s i2c \<Rightarrow> 's port \<Rightarrow> bool \<times> 's port" where
  "max17048_clear_alerts T p =
     (case modify_reg T STATUS 0 (ucast ALRT_STATUS_MSK) p of
        (ok, p1) \<Rightarrow> if ok then modify_reg T CONFIG 0 (ucast ALRT_BIT_MSK) p1 else (ok, p1))"

text \<open>
  The local \<open>data\<close> is declared without an initialiser. When \<open>read_reg\<close> fails it holds an
  indeterminate value (whatever was in it, or whatever the failed transport call left
  there): the parameter \<open>uninit\<close>. The function stores through \<open>alerts\<close> and ends in
  \<^verbatim>\<open>return true;\<close> whatever \<open>ok\<close> holds.
\<close>

definition max17048_get_alerts ::
  "'s i2c \<Rightarrow> u16 \<Rightarrow> nat option \<Rightarrow> 's port \<Rightarrow> bool \<times> (nat \<times> u8) option \<times> 's port" where
  "max17048_get_alerts T uninit alerts p =
     (case alerts of
        None \<Rightarrow> (False, None, p)
      | Some a \<Rightarrow>
          (case read_reg T STATUS p of (r, p1) \<Rightarrow>
             (let data = (case r of None \<Rightarrow> uninit | Some d \<Rightarrow> d);
                  ok = (r \<noteq> None);
                  p2 = (if ok then snd (max17048_clear_alerts T p1) else p1)
              in (True,
                  Some (a, ucast (drop_bit ALRT_STATUS_POS ((ucast data :: uint) AND ALRT_STATUS_MSK))),
                  p2))))"

section \<open>A register file behind the bus\<close>

text \<open>
  Modelled from the spec: the transport of i2c.h, which the repository does not contain,
  by the contract the specification gives it (a read yields the register's 16-bit value
  in wire order or fails, a write stores a 16-bit value given in wire order or fails),
  over a simulated register file. \<open>regs\<close> holds each register's value as the data sheet
  numbers it; on the wire the two bytes are in the other order. \<open>script\<close> lists the
  outcomes of the coming transport calls, next first (\<open>False\<close>: the call fails and
  changes no register); once it is used up every call succeeds. The concrete inputs of
  the development are run on it.
\<close>

record sim =
  regs :: "u8 \<Rightarrow> u16"
  script :: "bool list"

definition sim_read :: "u8 \<Rightarrow> u8 \<Rightarrow> sim \<Rightarrow> u16 option \<times> sim" where
  "sim_read addr reg d =
     (case script d of
        [] \<Rightarrow> (Some (SWAP16 (regs d reg)), d)
      | ok # rest \<Rightarrow>
          (if ok then Some (SWAP16 (regs d reg)) else None, d\<lparr>script := rest\<rparr>))"

definition sim_write :: "u8 \<Rightarrow> u8 \<Rightarrow> u16 \<Rightarrow> sim \<Rightarrow> bool \<times> sim" where
  "sim_write addr reg v d =
     (case script d of
        [] \<Rightarrow> (True, d\<lparr>regs := (regs d)(reg := SWAP16 v)\<rparr>)
      | ok # rest \<Rightarrow>
          (ok, if ok then d\<lparr>regs := (regs d)(reg := SWAP16 v), script := rest\<rparr>
               else d\<lparr>script := rest\<rparr>))"

definition sim_i2c :: "sim i2c" where
  "sim_i2c = \<lparr>i2c_master_read_u16 = sim_read, i2c_master_write_u16 = sim_write\<rparr>"

text \<open>The register file with every register zero, and a port on which no call was made yet.\<close>

definition blank :: "u8 \<Rightarrow> u16" where
  "blank reg = 0"

definition sim_port :: "(u8 \<Rightarrow> u16) \<Rightarrow> bool list \<Rightarrow> sim port" where
  "sim_port r s = \<lparr>hw = \<lparr>regs = r, script = s\<rparr>, calls = []\<rparr>"

text \<open>A register file with alerts pending: STATUS \<open>0x2A55\<close>, CONFIG \<open>0x97FF\<close>.\<close>

definition alerted :: "u8 \<Rightarrow> u16" where
  "alerted = blank(STATUS := 0x2A55, CONFIG := 0x97FF)"

lemmas sim_defs = sim_i2c_def sim_read_def sim_write_def sim_port_def

section \<open>Promoted arithmetic is 16-bit arithmetic\<close>

lemma unat_u16_lt: "unat (r::u16) < 65536"
  using unsigned_less [of r, where 'a=nat] by simp

lemma unat_ucast_u16: "unat (ucast (r::u16) :: uint) = unat r"
  using unat_u16_lt [of r] by (simp add: unsigned_ucast_eq take_bit_nat_eq_self_iff)

lemma ucast_u16_inj: "(ucast (a::u16) :: uint) = ucast (b::u16) \<longleftrightarrow> a = b"
  by (metis unat_ucast_u16 word_unat_eq_iff)

text \<open>The merge of \<open>modify_reg\<close>, computed on 32 bits and cut to 16, is the 16-bit merge.\<close>

lemma merge_u16:
  "(ucast (((ucast (buf::u16) :: uint) AND NOT (ucast (msk::u16))) OR (ucast (data::u16) AND ucast msk)) :: u16)
     = (buf AND NOT msk) OR (data AND msk)"
  by (rule bit_word_eqI) (auto simp: bit_simps)

text \<open>Swapping the bytes twice gives the value back.\<close>

lemma SWAP16_SWAP16: "SWAP16 (SWAP16 x) = x"
  unfolding SWAP16_def
  by (rule bit_word_eqI) (auto simp: bit_simps dest: bit_imp_le_length)

lemma VCELL_TO_MV_unat: "unat (VCELL_TO_MV (ucast (r::u16))) = (unat r * 5) div 64"
proof -
  have "unat r < 65536" by (rule unat_u16_lt)
  then have "unat ((ucast r :: uint) * 5) = unat r * 5"
    by (simp add: unat_word_ariths unat_ucast_u16)
  then show ?thesis by (simp add: VCELL_TO_MV_def drop_bit_eq_div unat_div)
qed

lemma unat_u8_lt: "unat (r::u8) < 256"
  using unsigned_less [of r, where 'a=nat] by simp

lemma unat_ucast_u8: "unat (ucast (r::u8) :: uint) = unat r"
  using unat_u8_lt [of r] by (simp add: unsigned_ucast_eq take_bit_nat_eq_self_iff)

lemma unat_ucast_u8_u16: "unat (ucast (r::u8) :: u16) = unat r"
  using unat_u8_lt [of r] by (simp add: unsigned_ucast_eq take_bit_nat_eq_self_iff)

lemma ucast_div_u16: "(ucast (mv :: u16) :: uint) div 20 = ucast (mv div 20)"
proof -
  have "unat ((ucast mv :: uint) div 20) = unat (ucast (mv div 20) :: uint)"
    by (simp add: unat_div unat_ucast_u16)
  then show ?thesis by (simp only: word_unat_eq_iff)
qed

text \<open>The two halves of a merged register value.\<close>

lemma merge_inside: "((old AND NOT m) OR (d AND m)) AND m = d AND m" for old d m :: u16
  by (rule bit_word_eqI) (auto simp: bit_simps)

lemma merge_outside: "((old AND NOT m) OR (d AND m)) AND NOT m = old AND NOT m" for old d m :: u16
  by (rule bit_word_eqI) (auto simp: bit_simps)

lemma merge_again:
  "(((x AND NOT m) OR (d AND m)) AND NOT m) OR (d AND m) = (x AND NOT m) OR (d AND m)"
  for x d m :: u16
  by (rule bit_word_eqI) (auto simp: bit_simps)

text \<open>The masks, as the \<open>uint16_t\<close> arguments \<open>modify_reg\<close> receives.\<close>

lemma msk_bat_low: "(ucast BAT_LOW_MSK :: u16) = 0x001F"
  by (simp add: BAT_LOW_MSK_def BAT_LOW_POS_def)

lemma msk_valrt_min: "(ucast VALRT_MIN_MSK :: u16) = 0xFF00"
  by (simp add: VALRT_MIN_MSK_def VALRT_MIN_POS_def)

lemma msk_status: "(ucast ALRT_STATUS_MSK :: u16) = 0x3F00"
  by (simp add: ALRT_STATUS_MSK_def ALRT_STATUS_POS_def)

lemma msk_alrt: "(ucast ALRT_BIT_MSK :: u16) = 0x0020"
  by (simp add: ALRT_BIT_MSK_def ALRT_BIT_POS_def)

section \<open>What the register primitives do on any transport\<close>

text \<open>
  A value read from the wire is written \<open>SWAP16 v\<close>, with \<open>v\<close> the register's value:
  every wire value has that form, by \<open>SWAP16_SWAP16\<close>.
\<close>

lemma read_reg_ok:
  "i2c_master_read_u16 T MAX_ADDR reg (hw p) = (Some (SWAP16 v), h) \<Longrightarrow>
   read_reg T reg p = (Some v, \<lparr>hw = h, calls = calls p @ [I2C_Read MAX_ADDR reg]\<rparr>)"
  by (simp add: read_reg_def SWAP16_SWAP16)

lemma read_reg_fail:
  "i2c_master_read_u16 T MAX_ADDR reg (hw p) = (None, h) \<Longrightarrow>
   read_reg T reg p = (None, \<lparr>hw = h, calls = calls p @ [I2C_Read MAX_ADDR reg]\<rparr>)"
  by (simp add: read_reg_def)

lemma write_reg_eq:
  "i2c_master_write_u16 T MAX_ADDR reg (SWAP16 v) (hw p) = (ok, h) \<Longrightarrow>
   write_reg T reg v p = (ok, \<lparr>hw = h, calls = calls p @ [I2C_Write MAX_ADDR reg (SWAP16 v)]\<rparr>)"
  by (simp add: write_reg_def)

lemma modify_reg_read_fail:
  "i2c_master_read_u16 T MAX_ADDR reg (hw p) = (None, h) \<Longrightarrow>
   modify_reg T reg data msk p = (False, \<lparr>hw = h, calls = calls p @ [I2C_Read MAX_ADDR reg]\<rparr>)"
  by (simp add: modify_reg_def read_reg_fail)

lemma modify_reg_read_ok:
  assumes "i2c_master_read_u16 T MAX_ADDR reg (hw p) = (Some (SWAP16 old), h)"
    and "i2c_master_write_u16 T MAX_ADDR reg (SWAP16 ((old AND NOT msk) OR (data AND msk))) h = (ok, h')"
  shows "modify_reg T reg data msk p =
     (ok, \<lparr>hw = h', calls = calls p @ [I2C_Read MAX_ADDR reg,
        I2C_Write MAX_ADDR reg (SWAP16 ((old AND NOT msk) OR (data AND msk)))]\<rparr>)"
  using assms by (simp add: modify_reg_def read_reg_ok merge_u16 write_reg_eq)

lemma modify_reg_calls:
  assumes "i2c_master_read_u16 T MAX_ADDR reg (hw p) = (Some (SWAP16 old), h)"
  shows "calls (snd (modify_reg T reg data msk p)) = calls p @ [I2C_Read MAX_ADDR reg,
        I2C_Write MAX_ADDR reg (SWAP16 ((old AND NOT msk) OR (data AND msk)))]"
proof -
  obtain ok h' where
    "i2c_master_write_u16 T MAX_ADDR reg (SWAP16 ((old AND NOT msk) OR (data AND msk))) h = (ok, h')"
    by (cases "i2c_master_write_u16 T MAX_ADDR reg (SWAP16 ((old AND NOT msk) OR (data AND msk))) h")
  with assms show ?thesis by (simp add: modify_reg_read_ok)
qed

section \<open>The voltage scale\<close>

lemma get_vcell_value:
  assumes "i2c_master_read_u16 T MAX_ADDR VCELL (hw p) = (Some (SWAP16 raw), h)"
  shows "max17048_get_vcell T (Some a) p =
           (True, Some (a, ucast (VCELL_TO_MV (ucast raw))),
            \<lparr>hw = h, calls = calls p @ [I2C_Read MAX_ADDR VCELL]\<rparr>)"
  using assms by (simp add: max17048_get_vcell_def read_reg_ok)

lemma get_vcell_3200:
  "max17048_get_vcell sim_i2c (Some 0) (sim_port (blank(VCELL := 0x0C80)) []) =
     (True, Some (0, 250),
      \<lparr>hw = \<lparr>regs = blank(VCELL := 0x0C80), script = []\<rparr>, calls = [I2C_Read MAX_ADDR VCELL]\<rparr>)"
  by (simp add: max17048_get_vcell_def read_reg_def sim_defs SWAP16_SWAP16 VCELL_TO_MV_def)

text \<open>
  C8. The decoding \<open>(raw * 5) >> 6\<close> of the VCELL register is monotone: for 16-bit raw
  values \<open>r1 \<le> r2\<close> the millivolt value of \<open>r1\<close> is at most that of \<open>r2\<close>, both as the
  macro computes it and after the conversion to \<open>max17048_voltage_t\<close> that
  \<open>max17048_get_vcell\<close> stores.
\<close>

theorem VCELL_TO_MV_monotone:
  fixes r1 r2 :: u16
  assumes "r1 \<le> r2"
  shows "VCELL_TO_MV (ucast r1) \<le> VCELL_TO_MV (ucast r2) \<and>
         (ucast (VCELL_TO_MV (ucast r1)) :: u16) \<le> ucast (VCELL_TO_MV (ucast r2))"
proof -
  have le: "unat r1 * 5 div 64 \<le> unat r2 * 5 div 64"
    using assms by (simp add: word_le_nat_alt div_le_mono)
  have small: "unat r * 5 div 64 < 65536" for r :: u16
    using unat_u16_lt [of r] by simp
  have cast: "unat (ucast (VCELL_TO_MV (ucast r)) :: u16) = unat r * 5 div 64" for r :: u16
    using small [of r]
    by (simp add: unsigned_ucast_eq VCELL_TO_MV_unat take_bit_nat_eq_self_iff)
  show ?thesis
    using le by (simp add: word_le_nat_alt VCELL_TO_MV_unat cast)
qed

theorem VCELL_TO_MV_monotone_witness:
  "(3200 :: u16) \<le> 3213 \<and>
   VCELL_TO_MV (ucast (3200 :: u16)) = 250 \<and> VCELL_TO_MV (ucast (3213 :: u16)) = 251 \<and>
   VCELL_TO_MV (ucast (3200 :: u16)) \<le> VCELL_TO_MV (ucast (3213 :: u16)) \<and>
   (ucast (VCELL_TO_MV (ucast (3200 :: u16))) :: u16) \<le> ucast (VCELL_TO_MV (ucast (3213 :: u16)))"
proof -
  have h: "(3200 :: u16) \<le> 3213" by simp
  show ?thesis
    using h VCELL_TO_MV_monotone [OF h] by (simp add: VCELL_TO_MV_def)
qed

section \<open>The masked update\<close>

text \<open>
  C6. For every old register value, new value and mask, \<open>modify_reg\<close> computes
  \<open>(old & ~mask) | (new & mask)\<close>: after a read that yields \<open>old\<close>, the one write it
  issues carries exactly that value; the bits outside the mask are those of \<open>old\<close> and the
  bits inside are those of the new value. On the register file, with no transport
  fault, the register holds the merged value afterwards, and applying the same update a
  second time leaves the register file as the first application left it.
\<close>

theorem modify_reg_masked_update:
  fixes old data msk :: u16
  shows
  "(i2c_master_read_u16 T MAX_ADDR reg (hw p) = (Some (SWAP16 old), h) \<longrightarrow>
      calls (snd (modify_reg T reg data msk p)) = calls p @
        [I2C_Read MAX_ADDR reg,
         I2C_Write MAX_ADDR reg (SWAP16 ((old AND NOT msk) OR (data AND msk)))])
   \<and> ((old AND NOT msk) OR (data AND msk)) AND NOT msk = old AND NOT msk
   \<and> ((old AND NOT msk) OR (data AND msk)) AND msk = data AND msk
   \<and> modify_reg sim_i2c reg data msk \<lparr>hw = \<lparr>regs = R, script = []\<rparr>, calls = cs\<rparr> =
        (True, \<lparr>hw = \<lparr>regs = R(reg := (R reg AND NOT msk) OR (data AND msk)), script = []\<rparr>,
                calls = cs @ [I2C_Read MAX_ADDR reg,
                  I2C_Write MAX_ADDR reg (SWAP16 ((R reg AND NOT msk) OR (data AND msk)))]\<rparr>)
   \<and> hw (snd (modify_reg sim_i2c reg data msk
          (snd (modify_reg sim_i2c reg data msk \<lparr>hw = \<lparr>regs = R, script = []\<rparr>, calls = cs\<rparr>)))) =
       hw (snd (modify_reg sim_i2c reg data msk \<lparr>hw = \<lparr>regs = R, script = []\<rparr>, calls = cs\<rparr>))"
proof -
  have once: "modify_reg sim_i2c reg data msk \<lparr>hw = \<lparr>regs = R', script = []\<rparr>, calls = cs'\<rparr> =
        (True, \<lparr>hw = \<lparr>regs = R'(reg := (R' reg AND NOT msk) OR (data AND msk)), script = []\<rparr>,
                calls = cs' @ [I2C_Read MAX_ADDR reg,
                  I2C_Write MAX_ADDR reg (SWAP16 ((R' reg AND NOT msk) OR (data AND msk)))]\<rparr>)"
    for R' cs'
    using modify_reg_read_ok [of sim_i2c reg "\<lparr>hw = \<lparr>regs = R', script = []\<rparr>, calls = cs'\<rparr>"
        "R' reg" "\<lparr>regs = R', script = []\<rparr>" msk data True
        "\<lparr>regs = R'(reg := (R' reg AND NOT msk) OR (data AND msk)), script = []\<rparr>"]
    by (simp add: sim_i2c_def sim_read_def sim_write_def SWAP16_SWAP16)
  show ?thesis
    by (intro conjI impI)
       (simp_all add: modify_reg_calls merge_outside merge_inside merge_again once)
qed

theorem modify_reg_masked_update_witness:
  "i2c_master_read_u16 sim_i2c MAX_ADDR VALRT (hw (sim_port (blank(VALRT := 0x12D2)) [])) =
     (Some (SWAP16 0x12D2), \<lparr>regs = blank(VALRT := 0x12D2), script = []\<rparr>)
   \<and> modify_reg sim_i2c VALRT 0x9600 0xFF00 (sim_port (blank(VALRT := 0x12D2)) []) =
     (True, \<lparr>hw = \<lparr>regs = blank(VALRT := 0x96D2), script = []\<rparr>,
             calls = [I2C_Read MAX_ADDR VALRT, I2C_Write MAX_ADDR VALRT (SWAP16 0x96D2)]\<rparr>)
   \<and> hw (snd (modify_reg sim_i2c VALRT 0x9600 0xFF00
         (snd (modify_reg sim_i2c VALRT 0x9600 0xFF00 (sim_port (blank(VALRT := 0x12D2)) []))))) =
       \<lparr>regs = blank(VALRT := 0x96D2), script = []\<rparr>"
  using modify_reg_masked_update [of sim_i2c VALRT "sim_port (blank(VALRT := 0x12D2)) []"
      "0x12D2" "\<lparr>regs = blank(VALRT := 0x12D2), script = []\<rparr>" "0x9600" "0xFF00"
      "blank(VALRT := 0x12D2)" "[]"]
  by (simp add: modify_reg_def read_reg_def write_reg_def sim_defs SWAP16_SWAP16)

section \<open>Presence\<close>

lemma present_u16:
  "((ucast (d::u16) :: uint) AND VERSION_MSK = PART_NUMBER) \<longleftrightarrow> (d AND 0xFFF0 = 0x0010)"
proof -
  have m32: "(0xFFF0::uint) = push_bit 4 (mask 12)" by (simp add: mask_eq_exp_minus_1)
  have m16: "(0xFFF0::u16) = push_bit 4 (mask 12)" by (simp add: mask_eq_exp_minus_1)
  have "(ucast d :: uint) AND 0xFFF0 = ucast (d AND 0xFFF0)"
    unfolding m32 m16 by (rule bit_word_eqI) (auto simp: bit_simps)
  moreover have "(0x10 :: uint) = ucast (0x10 :: u16)" by simp
  ultimately show ?thesis
    unfolding VERSION_MSK_def PART_NUMBER_def by (simp only: ucast_u16_inj)
qed

text \<open>
  C5. \<open>max17048_is_present\<close> returns true if and only if the read of the version
  register succeeds and the register's value \<open>v\<close> satisfies \<open>(v & 0xFFF0) == 0x0010\<close>; when
  the transport read fails it returns false, the same boolean and no distinct error.
\<close>

theorem is_present_iff:
  "(fst (max17048_is_present T p) \<longleftrightarrow>
      (\<exists>v. fst (i2c_master_read_u16 T MAX_ADDR VERSION (hw p)) = Some (SWAP16 v) \<and>
           v AND 0xFFF0 = 0x0010))
   \<and> (fst (i2c_master_read_u16 T MAX_ADDR VERSION (hw p)) = None \<longrightarrow>
        fst (max17048_is_present T p) = False)"
proof (cases "i2c_master_read_u16 T MAX_ADDR VERSION (hw p)")
  case (Pair r h)
  show ?thesis
  proof (cases r)
    case None
    with Pair show ?thesis
      by (simp add: max17048_is_present_def read_reg_fail)
  next
    case (Some w)
    with Pair have rd:
      "i2c_master_read_u16 T MAX_ADDR VERSION (hw p) = (Some (SWAP16 (SWAP16 w)), h)"
      by (simp add: SWAP16_SWAP16)
    have "fst (max17048_is_present T p) \<longleftrightarrow> SWAP16 w AND 0xFFF0 = 0x0010"
      by (simp add: max17048_is_present_def read_reg_ok [OF rd] present_u16)
    moreover have "(\<exists>v. w = SWAP16 v \<and> v AND 0xFFF0 = 0x0010) \<longleftrightarrow> SWAP16 w AND 0xFFF0 = 0x0010"
      by (metis SWAP16_SWAP16)
    ultimately show ?thesis using Pair Some by simp
  qed
qed

theorem is_present_iff_witness:
  "fst (max17048_is_present sim_i2c (sim_port (blank(VERSION := 0x0012)) [])) = True
   \<and> fst (max17048_is_present sim_i2c (sim_port (blank(VERSION := 0x1234)) [])) = False
   \<and> fst (i2c_master_read_u16 sim_i2c MAX_ADDR VERSION
        (hw (sim_port (blank(VERSION := 0x0012)) [False]))) = None
   \<and> fst (max17048_is_present sim_i2c (sim_port (blank(VERSION := 0x0012)) [False])) = False"
proof -
  have "fst (max17048_is_present sim_i2c (sim_port (blank(VERSION := 0x0012)) [])) = True"
    by (simp add: max17048_is_present_def read_reg_def sim_defs SWAP16_SWAP16
        VERSION_MSK_def PART_NUMBER_def)
  moreover have "fst (max17048_is_present sim_i2c (sim_port (blank(VERSION := 0x1234)) [])) = False"
    by (simp add: max17048_is_present_def read_reg_def sim_defs SWAP16_SWAP16
        VERSION_MSK_def PART_NUMBER_def)
  moreover have "fst (i2c_master_read_u16 sim_i2c MAX_ADDR VERSION
      (hw (sim_port (blank(VERSION := 0x0012)) [False]))) = None"
    by (simp add: sim_defs)
  ultimately show ?thesis
    using is_present_iff [of sim_i2c "sim_port (blank(VERSION := 0x0012)) [False]"]
    by simp
qed

section \<open>The getters\<close>

text \<open>
  C10. Each getter that takes an output pointer (cell voltage, state of charge, alerts)
  returns false on a null pointer, makes no store through it, and leaves the port as it
  was: no transport call is added to the list and the transport's state is unchanged.
\<close>

theorem getters_reject_null:
  "max17048_get_vcell T None p = (False, None, p)
   \<and> max17048_get_soc T None p = (False, None, p)
   \<and> max17048_get_alerts T uninit None p = (False, None, p)"
  by (simp add: max17048_get_vcell_def max17048_get_soc_def max17048_get_alerts_def)

lemma soc_byte_u16:
  "(ucast (drop_bit 8 (ucast (raw::u16) :: uint)) :: u8) = ucast (drop_bit 8 raw)"
  by (rule bit_word_eqI) (auto simp: bit_simps)

lemma soc_byte_unat: "unat (ucast (drop_bit 8 (raw::u16)) :: u8) = unat raw div 256"
proof -
  have small: "unat raw div 256 < 256" using unat_u16_lt [of raw] by simp
  have a: "unat (drop_bit 8 raw) = unat raw div 256"
    by (simp add: drop_bit_eq_div unat_div)
  have "unat (ucast (drop_bit 8 raw) :: u8) = take_bit 8 (unat raw div 256)"
    by (simp only: unsigned_ucast_eq a) simp
  with small show ?thesis by (simp add: take_bit_nat_eq_self_iff)
qed

text \<open>
  C3, as the specification states it, fails: the state of charge returned is the upper
  byte of the SOC register whatever it holds, and nothing bounds it by 100. With the
  register at \<open>0xFF00\<close> the getter succeeds and stores 255.
\<close>

theorem get_soc_above_100:
  "max17048_get_soc sim_i2c (Some 0) (sim_port (blank(SOC := 0xFF00)) []) =
     (True, Some (0, 255),
      \<lparr>hw = \<lparr>regs = blank(SOC := 0xFF00), script = []\<rparr>, calls = [I2C_Read MAX_ADDR SOC]\<rparr>)
   \<and> \<not> unat (255 :: u8) \<le> 100"
  by (simp add: max17048_get_soc_def read_reg_def sim_defs SWAP16_SWAP16)

text \<open>
  C3, amended. For every 16-bit raw value of the SOC register, \<open>max17048_get_soc\<close>
  returns true and stores the upper byte of the register (the raw value divided by 256)
  as the whole-percent value; that value lies between 0 and 255, and it is at most 100
  exactly when the raw value is below \<open>0x6500\<close>.
\<close>

theorem get_soc_upper_byte:
  fixes raw :: u16
  assumes "i2c_master_read_u16 T MAX_ADDR SOC (hw p) = (Some (SWAP16 raw), h)"
  shows "max17048_get_soc T (Some a) p =
           (True, Some (a, ucast (drop_bit 8 raw)),
            \<lparr>hw = h, calls = calls p @ [I2C_Read MAX_ADDR SOC]\<rparr>)
         \<and> unat (ucast (drop_bit 8 raw) :: u8) = unat raw div 256
         \<and> unat (ucast (drop_bit 8 raw) :: u8) \<le> 255
         \<and> (unat (ucast (drop_bit 8 raw) :: u8) \<le> 100 \<longleftrightarrow> raw < 0x6500)"
proof -
  have "unat raw div 256 \<le> 255" using unat_u16_lt [of raw] by simp
  moreover have "unat raw div 256 \<le> 100 \<longleftrightarrow> raw < 0x6500"
    by (simp add: word_less_nat_alt) arith
  ultimately show ?thesis
    using assms by (simp add: max17048_get_soc_def read_reg_ok soc_byte_u16 soc_byte_unat)
qed

theorem get_soc_upper_byte_witness:
  "i2c_master_read_u16 sim_i2c MAX_ADDR SOC (hw (sim_port (blank(SOC := 0x5A00)) [])) =
     (Some (SWAP16 0x5A00), \<lparr>regs = blank(SOC := 0x5A00), script = []\<rparr>)
   \<and> max17048_get_soc sim_i2c (Some 0) (sim_port (blank(SOC := 0x5A00)) []) =
     (True, Some (0, 0x5A),
      \<lparr>hw = \<lparr>regs = blank(SOC := 0x5A00), script = []\<rparr>, calls = [I2C_Read MAX_ADDR SOC]\<rparr>)
   \<and> unat (0x5A :: u8) = 90"
proof -
  have rd: "i2c_master_read_u16 sim_i2c MAX_ADDR SOC (hw (sim_port (blank(SOC := 0x5A00)) [])) =
      (Some (SWAP16 0x5A00), \<lparr>regs = blank(SOC := 0x5A00), script = []\<rparr>)"
    by (simp add: sim_defs)
  show ?thesis
    using rd get_soc_upper_byte [OF rd, of 0] by (simp add: sim_port_def)
qed

section \<open>The setters\<close>

lemma bat_low_range:
  fixes percent :: u8
  shows "((ucast percent :: uint) < BAT_LOW_MIN \<or> (ucast percent :: uint) > BAT_LOW_MAX)
     \<longleftrightarrow> (percent < 1 \<or> 32 < percent)"
  by (simp add: BAT_LOW_MIN_def BAT_LOW_MAX_def word_less_nat_alt unat_ucast_u8)

lemma bat_low_unat:
  fixes percent :: u8
  shows "unat ((ucast ((BAT_LOW_MAX - (ucast percent mod BAT_LOW_MAX)) AND BAT_LOW_MSK)) :: u16)
     = (32 - unat percent mod 32) mod 32"
proof -
  have m: "BAT_LOW_MSK = mask 5"
    by (simp add: BAT_LOW_MSK_def BAT_LOW_POS_def mask_eq_exp_minus_1)
  have a: "unat ((ucast percent :: uint) mod 32) = unat percent mod 32"
    by (simp add: unat_mod unat_ucast_u8)
  have "unat percent mod 32 < 32" by simp
  then have b: "unat (32 - (ucast percent :: uint) mod 32) = 32 - unat percent mod 32"
    using a by (simp add: unat_sub word_le_nat_alt)
  have c: "unat ((32 - (ucast percent :: uint) mod 32) AND mask 5) = (32 - unat percent mod 32) mod 32"
    by (simp only: take_bit_eq_mask [symmetric] unsigned_take_bit_eq b) (simp add: take_bit_eq_mod)
  have "(32 - unat percent mod 32) mod 32 < 65536"
    by (rule less_trans [OF mod_less_divisor]) simp_all
  then show ?thesis
    unfolding BAT_LOW_MAX_def m
    by (simp only: unsigned_ucast_eq c) (simp add: take_bit_nat_eq_self_iff)
qed

text \<open>The value \<open>max17048_set_bat_low_soc\<close> passes on, for a percentage it accepts.\<close>

lemma bat_low_data:
  fixes percent :: u8
  assumes "1 \<le> percent" "percent \<le> 32"
  shows "(ucast ((BAT_LOW_MAX - (ucast percent mod BAT_LOW_MAX)) AND BAT_LOW_MSK) :: u16)
     = (if percent = 32 then 0 else 32 - ucast percent)"
proof -
  have r: "1 \<le> unat percent" "unat percent \<le> 32"
    using assms by (simp_all add: word_le_nat_alt)
  show ?thesis
  proof (cases "percent = 32")
    case True
    then show ?thesis
      by (simp add: BAT_LOW_MAX_def BAT_LOW_MSK_def BAT_LOW_POS_def)
  next
    case False
    then have "unat percent \<noteq> 32"
      by (simp add: word_unat_eq_iff)
    with r have lt: "unat percent < 32" by simp
    have "unat (32 - (ucast percent :: u16)) = 32 - unat percent"
      using lt by (simp add: unat_sub word_le_nat_alt unat_ucast_u8_u16)
    moreover have "(32 - unat percent mod 32) mod 32 = 32 - unat percent"
      using lt r by simp
    ultimately have
      "unat (ucast ((BAT_LOW_MAX - (ucast percent mod BAT_LOW_MAX)) AND BAT_LOW_MSK) :: u16)
         = unat (32 - (ucast percent :: u16))"
      by (simp only: bat_low_unat)
    with False show ?thesis by (simp only: word_unat_eq_iff if_False)
  qed
qed

lemma bat_low_field:
  "(ucast ((x :: uint) AND BAT_LOW_MSK) :: u16) AND 0x1F = ucast (x AND BAT_LOW_MSK)"
proof -
  have m: "BAT_LOW_MSK = mask 5"
    by (simp add: BAT_LOW_MSK_def BAT_LOW_POS_def mask_eq_exp_minus_1)
  have m16: "(0x1F :: u16) = mask 5" by (simp add: mask_eq_exp_minus_1)
  show ?thesis unfolding m m16 by (rule bit_word_eqI) (auto simp: bit_simps)
qed

text \<open>
  C4. For a low-battery percentage \<open>p\<close> from 1 to 31, \<open>max17048_set_bat_low_soc\<close> writes
  CONFIG with its 5-bit field (bits 0 to 4) equal to \<open>32 - p\<close>, and for \<open>p = 32\<close> with the
  field equal to 0, the other bits of CONFIG as they were read. For \<open>p\<close> outside 1 to 32
  it returns false and the port is unchanged: no register is read or written.
\<close>

theorem set_bat_low_soc_encoding:
  fixes percent :: u8 and old :: u16
  shows
  "(percent < 1 \<or> 32 < percent \<longrightarrow> max17048_set_bat_low_soc T percent p = (False, p))
   \<and> (1 \<le> percent \<and> percent \<le> 32 \<and>
      i2c_master_read_u16 T MAX_ADDR CONFIG (hw p) = (Some (SWAP16 old), h) \<longrightarrow>
      (\<exists>new. calls (snd (max17048_set_bat_low_soc T percent p)) =
          calls p @ [I2C_Read MAX_ADDR CONFIG, I2C_Write MAX_ADDR CONFIG (SWAP16 new)]
        \<and> new AND 0x1F = (if percent = 32 then 0 else 32 - ucast percent)
        \<and> new AND NOT 0x1F = old AND NOT 0x1F))"
proof (intro conjI impI)
  assume "percent < 1 \<or> 32 < percent"
  then show "max17048_set_bat_low_soc T percent p = (False, p)"
    by (simp only: max17048_set_bat_low_soc_def bat_low_range if_True)
next
  assume a: "1 \<le> percent \<and> percent \<le> 32 \<and>
      i2c_master_read_u16 T MAX_ADDR CONFIG (hw p) = (Some (SWAP16 old), h)"
  let ?data = "ucast ((BAT_LOW_MAX - (ucast percent mod BAT_LOW_MAX)) AND BAT_LOW_MSK) :: u16"
  let ?new = "(old AND NOT 0x1F) OR (?data AND 0x1F)"
  from a have "\<not> (percent < 1 \<or> 32 < percent)"
    by (simp only: not_less de_Morgan_disj)
  then have run: "max17048_set_bat_low_soc T percent p = modify_reg T CONFIG ?data 0x1F p"
    by (simp only: max17048_set_bat_low_soc_def bat_low_range if_False msk_bat_low)
  have "calls (snd (max17048_set_bat_low_soc T percent p)) =
          calls p @ [I2C_Read MAX_ADDR CONFIG, I2C_Write MAX_ADDR CONFIG (SWAP16 ?new)]"
    unfolding run using a by (intro modify_reg_calls) simp
  moreover have "?new AND 0x1F = (if percent = 32 then 0 else 32 - ucast percent)"
  proof -
    have "?new AND 0x1F = ?data AND 0x1F" by (rule merge_inside)
    also have "\<dots> = ?data" by (rule bat_low_field)
    also from a have "?data = (if percent = 32 then 0 else 32 - ucast percent)"
      by (intro bat_low_data) simp_all
    finally show ?thesis .
  qed
  moreover have "?new AND NOT 0x1F = old AND NOT 0x1F"
    by (rule merge_outside)
  ultimately show "\<exists>new. calls (snd (max17048_set_bat_low_soc T percent p)) =
          calls p @ [I2C_Read MAX_ADDR CONFIG, I2C_Write MAX_ADDR CONFIG (SWAP16 new)]
        \<and> new AND 0x1F = (if percent = 32 then 0 else 32 - ucast percent)
        \<and> new AND NOT 0x1F = old AND NOT 0x1F"
    by blast
qed

theorem set_bat_low_soc_encoding_witness:
  "max17048_set_bat_low_soc sim_i2c 0 (sim_port (blank(CONFIG := 0x971C)) []) =
      (False, sim_port (blank(CONFIG := 0x971C)) [])
   \<and> max17048_set_bat_low_soc sim_i2c 33 (sim_port (blank(CONFIG := 0x971C)) []) =
      (False, sim_port (blank(CONFIG := 0x971C)) [])
   \<and> i2c_master_read_u16 sim_i2c MAX_ADDR CONFIG (hw (sim_port (blank(CONFIG := 0x971C)) [])) =
      (Some (SWAP16 0x971C), \<lparr>regs = blank(CONFIG := 0x971C), script = []\<rparr>)
   \<and> calls (snd (max17048_set_bat_low_soc sim_i2c 15 (sim_port (blank(CONFIG := 0x971C)) []))) =
      [I2C_Read MAX_ADDR CONFIG, I2C_Write MAX_ADDR CONFIG (SWAP16 0x9711)]
   \<and> calls (snd (max17048_set_bat_low_soc sim_i2c 32 (sim_port (blank(CONFIG := 0x971C)) []))) =
      [I2C_Read MAX_ADDR CONFIG, I2C_Write MAX_ADDR CONFIG (SWAP16 0x9700)]"
proof -
  have rd: "i2c_master_read_u16 sim_i2c MAX_ADDR CONFIG (hw (sim_port (blank(CONFIG := 0x971C)) [])) =
      (Some (SWAP16 0x971C), \<lparr>regs = blank(CONFIG := 0x971C), script = []\<rparr>)"
    by (simp add: sim_defs)
  have r15: "calls (snd (max17048_set_bat_low_soc sim_i2c 15 (sim_port (blank(CONFIG := 0x971C)) []))) =
      [I2C_Read MAX_ADDR CONFIG, I2C_Write MAX_ADDR CONFIG (SWAP16 0x9711)]"
    by (simp add: max17048_set_bat_low_soc_def modify_reg_def read_reg_def write_reg_def sim_defs
        SWAP16_SWAP16 BAT_LOW_MSK_def BAT_LOW_POS_def BAT_LOW_MIN_def BAT_LOW_MAX_def)
  have r32: "calls (snd (max17048_set_bat_low_soc sim_i2c 32 (sim_port (blank(CONFIG := 0x971C)) []))) =
      [I2C_Read MAX_ADDR CONFIG, I2C_Write MAX_ADDR CONFIG (SWAP16 0x9700)]"
    by (simp add: max17048_set_bat_low_soc_def modify_reg_def read_reg_def write_reg_def sim_defs
        SWAP16_SWAP16 BAT_LOW_MSK_def BAT_LOW_POS_def BAT_LOW_MIN_def BAT_LOW_MAX_def)
  show ?thesis
    using set_bat_low_soc_encoding [of 0 sim_i2c "sim_port (blank(CONFIG := 0x971C)) []"]
      set_bat_low_soc_encoding [of 33 sim_i2c "sim_port (blank(CONFIG := 0x971C)) []"]
      set_bat_low_soc_encoding [of 15 sim_i2c "sim_port (blank(CONFIG := 0x971C)) []" "0x971C"
        "\<lparr>regs = blank(CONFIG := 0x971C), script = []\<rparr>"]
      rd r15 r32
    by simp
qed

lemma undervolted_data:
  "(ucast (push_bit VALRT_MIN_POS ((ucast (mv::u16) :: uint) div VALRT_RESOLUTION) AND VALRT_MIN_MSK) :: u16)
     = push_bit 8 ((mv div 20) AND 0xFF)"
proof -
  have m: "VALRT_MIN_MSK = push_bit 8 (mask 8)"
    by (simp add: VALRT_MIN_MSK_def VALRT_MIN_POS_def mask_eq_exp_minus_1)
  have m16: "(0xFF::u16) = mask 8" by (simp add: mask_eq_exp_minus_1)
  show ?thesis
    unfolding VALRT_MIN_POS_def VALRT_RESOLUTION_def m ucast_div_u16 m16
    by (rule bit_word_eqI) (auto simp: bit_simps)
qed

lemma valrt_min_field:
  "drop_bit 8 ((old AND NOT 0xFF00) OR (push_bit 8 (f AND 0xFF) AND 0xFF00)) = f AND 0xFF"
  for old f :: u16
proof -
  have hi: "(0xFF00::u16) = push_bit 8 (mask 8)" by (simp add: mask_eq_exp_minus_1)
  have lo: "(0xFF::u16) = mask 8" by (simp add: mask_eq_exp_minus_1)
  show ?thesis unfolding hi lo by (rule bit_word_eqI) (auto simp: bit_simps)
qed

lemma valrt_max_field:
  "((old AND NOT 0xFF00) OR (push_bit 8 (f AND 0xFF) AND 0xFF00)) AND 0xFF = old AND 0xFF"
  for old f :: u16
proof -
  have hi: "(0xFF00::u16) = push_bit 8 (mask 8)" by (simp add: mask_eq_exp_minus_1)
  have lo: "(0xFF::u16) = mask 8" by (simp add: mask_eq_exp_minus_1)
  show ?thesis unfolding hi lo by (rule bit_word_eqI) (auto simp: bit_simps)
qed

text \<open>
  C9. For every millivolt input \<open>mv\<close>, \<open>max17048_set_undervolted_voltage\<close> writes VALRT
  with \<open>(mv / 20) & 0xFF\<close> in bits 8 to 15 and with bits 0 to 7, the maximum-voltage
  field, as they were read.
\<close>

theorem set_undervolted_voltage_writes:
  fixes old mv :: u16
  assumes "i2c_master_read_u16 T MAX_ADDR VALRT (hw p) = (Some (SWAP16 old), h)"
  shows "\<exists>new. calls (snd (max17048_set_undervolted_voltage T mv p)) =
            calls p @ [I2C_Read MAX_ADDR VALRT, I2C_Write MAX_ADDR VALRT (SWAP16 new)]
         \<and> drop_bit 8 new = (mv div 20) AND 0xFF
         \<and> new AND 0x00FF = old AND 0x00FF"
proof (intro exI conjI)
  show "calls (snd (max17048_set_undervolted_voltage T mv p)) =
          calls p @ [I2C_Read MAX_ADDR VALRT, I2C_Write MAX_ADDR VALRT
            (SWAP16 ((old AND NOT 0xFF00) OR (push_bit 8 ((mv div 20) AND 0xFF) AND 0xFF00)))]"
    unfolding max17048_set_undervolted_voltage_def msk_valrt_min undervolted_data
    by (rule modify_reg_calls [OF assms])
  show "drop_bit 8 ((old AND NOT 0xFF00) OR (push_bit 8 ((mv div 20) AND 0xFF) AND 0xFF00)) =
          (mv div 20) AND 0xFF"
    by (rule valrt_min_field)
  show "((old AND NOT 0xFF00) OR (push_bit 8 ((mv div 20) AND 0xFF) AND 0xFF00)) AND 0x00FF =
          old AND 0x00FF"
    by (rule valrt_max_field)
qed

theorem set_undervolted_voltage_writes_witness:
  "i2c_master_read_u16 sim_i2c MAX_ADDR VALRT (hw (sim_port (blank(VALRT := 0x12D2)) [])) =
      (Some (SWAP16 0x12D2), \<lparr>regs = blank(VALRT := 0x12D2), script = []\<rparr>)
   \<and> max17048_set_undervolted_voltage sim_i2c 3000 (sim_port (blank(VALRT := 0x12D2)) []) =
      (True, \<lparr>hw = \<lparr>regs = blank(VALRT := 0x96D2), script = []\<rparr>,
         calls = [I2C_Read MAX_ADDR VALRT, I2C_Write MAX_ADDR VALRT (SWAP16 0x96D2)]\<rparr>)
   \<and> (\<exists>new. calls (snd (max17048_set_undervolted_voltage sim_i2c 3000
            (sim_port (blank(VALRT := 0x12D2)) []))) =
         [I2C_Read MAX_ADDR VALRT, I2C_Write MAX_ADDR VALRT (SWAP16 new)]
       \<and> drop_bit 8 new = (3000 div 20) AND 0xFF \<and> new AND 0x00FF = 0x12D2 AND 0x00FF)"
proof -
  have rd: "i2c_master_read_u16 sim_i2c MAX_ADDR VALRT (hw (sim_port (blank(VALRT := 0x12D2)) [])) =
      (Some (SWAP16 0x12D2), \<lparr>regs = blank(VALRT := 0x12D2), script = []\<rparr>)"
    by (simp add: sim_defs)
  have run: "max17048_set_undervolted_voltage sim_i2c 3000 (sim_port (blank(VALRT := 0x12D2)) []) =
      (True, \<lparr>hw = \<lparr>regs = blank(VALRT := 0x96D2), script = []\<rparr>,
         calls = [I2C_Read MAX_ADDR VALRT, I2C_Write MAX_ADDR VALRT (SWAP16 0x96D2)]\<rparr>)"
    by (simp add: max17048_set_undervolted_voltage_def modify_reg_def read_reg_def write_reg_def
        sim_defs SWAP16_SWAP16 VALRT_MIN_MSK_def VALRT_MIN_POS_def VALRT_RESOLUTION_def)
  show ?thesis
    using rd set_undervolted_voltage_writes [OF rd, of 3000] by (simp add: run)
qed

section \<open>The alerts\<close>

text \<open>
  C7. \<open>max17048_clear_alerts\<close> first clears bits 8 to 13 of STATUS and then bit 5 of
  CONFIG, each by a read and a write of the register. It returns true only if all four
  transport calls succeed, and it stops at the first that fails: when the read or the
  write of STATUS fails, no call on CONFIG is made. The four cases cover every behaviour
  of the transport.
\<close>

theorem clear_alerts_steps:
  "(i2c_master_read_u16 T MAX_ADDR STATUS (hw p) = (None, h1) \<longrightarrow>
      max17048_clear_alerts T p =
        (False, \<lparr>hw = h1, calls = calls p @ [I2C_Read MAX_ADDR STATUS]\<rparr>))
   \<and> (i2c_master_read_u16 T MAX_ADDR STATUS (hw p) = (Some (SWAP16 s), h1) \<and>
      i2c_master_write_u16 T MAX_ADDR STATUS (SWAP16 (s AND NOT 0x3F00)) h1 = (False, h2) \<longrightarrow>
      max17048_clear_alerts T p = (False, \<lparr>hw = h2, calls = calls p @
        [I2C_Read MAX_ADDR STATUS, I2C_Write MAX_ADDR STATUS (SWAP16 (s AND NOT 0x3F00))]\<rparr>))
   \<and> (i2c_master_read_u16 T MAX_ADDR STATUS (hw p) = (Some (SWAP16 s), h1) \<and>
      i2c_master_write_u16 T MAX_ADDR STATUS (SWAP16 (s AND NOT 0x3F00)) h1 = (True, h2) \<and>
      i2c_master_read_u16 T MAX_ADDR CONFIG h2 = (None, h3) \<longrightarrow>
      max17048_clear_alerts T p = (False, \<lparr>hw = h3, calls = calls p @
        [I2C_Read MAX_ADDR STATUS, I2C_Write MAX_ADDR STATUS (SWAP16 (s AND NOT 0x3F00)),
         I2C_Read MAX_ADDR CONFIG]\<rparr>))
   \<and> (i2c_master_read_u16 T MAX_ADDR STATUS (hw p) = (Some (SWAP16 s), h1) \<and>
      i2c_master_write_u16 T MAX_ADDR STATUS (SWAP16 (s AND NOT 0x3F00)) h1 = (True, h2) \<and>
      i2c_master_read_u16 T MAX_ADDR CONFIG h2 = (Some (SWAP16 c), h3) \<and>
      i2c_master_write_u16 T MAX_ADDR CONFIG (SWAP16 (c AND NOT 0x0020)) h3 = (ok, h4) \<longrightarrow>
      max17048_clear_alerts T p = (ok, \<lparr>hw = h4, calls = calls p @
        [I2C_Read MAX_ADDR STATUS, I2C_Write MAX_ADDR STATUS (SWAP16 (s AND NOT 0x3F00)),
         I2C_Read MAX_ADDR CONFIG, I2C_Write MAX_ADDR CONFIG (SWAP16 (c AND NOT 0x0020))]\<rparr>))"
proof (intro conjI impI)
  assume "i2c_master_read_u16 T MAX_ADDR STATUS (hw p) = (None, h1)"
  then show "max17048_clear_alerts T p =
      (False, \<lparr>hw = h1, calls = calls p @ [I2C_Read MAX_ADDR STATUS]\<rparr>)"
    by (simp add: max17048_clear_alerts_def modify_reg_read_fail)
next
  assume "i2c_master_read_u16 T MAX_ADDR STATUS (hw p) = (Some (SWAP16 s), h1) \<and>
    i2c_master_write_u16 T MAX_ADDR STATUS (SWAP16 (s AND NOT 0x3F00)) h1 = (False, h2)"
  then show "max17048_clear_alerts T p = (False, \<lparr>hw = h2, calls = calls p @
        [I2C_Read MAX_ADDR STATUS, I2C_Write MAX_ADDR STATUS (SWAP16 (s AND NOT 0x3F00))]\<rparr>)"
    using modify_reg_read_ok [of T STATUS p s h1 "0x3F00" 0 False h2]
    by (simp add: max17048_clear_alerts_def msk_status)
next
  assume a: "i2c_master_read_u16 T MAX_ADDR STATUS (hw p) = (Some (SWAP16 s), h1) \<and>
    i2c_master_write_u16 T MAX_ADDR STATUS (SWAP16 (s AND NOT 0x3F00)) h1 = (True, h2) \<and>
    i2c_master_read_u16 T MAX_ADDR CONFIG h2 = (None, h3)"
  then have "modify_reg T STATUS 0 0x3F00 p = (True, \<lparr>hw = h2, calls = calls p @
        [I2C_Read MAX_ADDR STATUS, I2C_Write MAX_ADDR STATUS (SWAP16 (s AND NOT 0x3F00))]\<rparr>)"
    using modify_reg_read_ok [of T STATUS p s h1 "0x3F00" 0 True h2] by simp
  with a show "max17048_clear_alerts T p = (False, \<lparr>hw = h3, calls = calls p @
        [I2C_Read MAX_ADDR STATUS, I2C_Write MAX_ADDR STATUS (SWAP16 (s AND NOT 0x3F00)),
         I2C_Read MAX_ADDR CONFIG]\<rparr>)"
    by (simp add: max17048_clear_alerts_def msk_status msk_alrt modify_reg_read_fail)
next
  assume a: "i2c_master_read_u16 T MAX_ADDR STATUS (hw p) = (Some (SWAP16 s), h1) \<and>
    i2c_master_write_u16 T MAX_ADDR STATUS (SWAP16 (s AND NOT 0x3F00)) h1 = (True, h2) \<and>
    i2c_master_read_u16 T MAX_ADDR CONFIG h2 = (Some (SWAP16 c), h3) \<and>
    i2c_master_write_u16 T MAX_ADDR CONFIG (SWAP16 (c AND NOT 0x0020)) h3 = (ok, h4)"
  then have "modify_reg T STATUS 0 0x3F00 p = (True, \<lparr>hw = h2, calls = calls p @
        [I2C_Read MAX_ADDR STATUS, I2C_Write MAX_ADDR STATUS (SWAP16 (s AND NOT 0x3F00))]\<rparr>)"
    using modify_reg_read_ok [of T STATUS p s h1 "0x3F00" 0 True h2] by simp
  with a show "max17048_clear_alerts T p = (ok, \<lparr>hw = h4, calls = calls p @
        [I2C_Read MAX_ADDR STATUS, I2C_Write MAX_ADDR STATUS (SWAP16 (s AND NOT 0x3F00)),
         I2C_Read MAX_ADDR CONFIG, I2C_Write MAX_ADDR CONFIG (SWAP16 (c AND NOT 0x0020))]\<rparr>)"
    using modify_reg_read_ok [of T CONFIG "\<lparr>hw = h2, calls = calls p @
        [I2C_Read MAX_ADDR STATUS, I2C_Write MAX_ADDR STATUS (SWAP16 (s AND NOT 0x3F00))]\<rparr>"
        c h3 "0x20" 0 ok h4]
    by (simp add: max17048_clear_alerts_def msk_status msk_alrt)
qed

theorem clear_alerts_steps_witness:
  "max17048_clear_alerts sim_i2c (sim_port alerted [False]) =
     (False, \<lparr>hw = \<lparr>regs = alerted, script = []\<rparr>, calls = [I2C_Read MAX_ADDR STATUS]\<rparr>)
   \<and> max17048_clear_alerts sim_i2c (sim_port alerted [True, False]) =
     (False, \<lparr>hw = \<lparr>regs = alerted, script = []\<rparr>,
        calls = [I2C_Read MAX_ADDR STATUS, I2C_Write MAX_ADDR STATUS (SWAP16 0x0055)]\<rparr>)
   \<and> max17048_clear_alerts sim_i2c (sim_port alerted [True, True, False]) =
     (False, \<lparr>hw = \<lparr>regs = alerted(STATUS := 0x0055), script = []\<rparr>,
        calls = [I2C_Read MAX_ADDR STATUS, I2C_Write MAX_ADDR STATUS (SWAP16 0x0055),
                 I2C_Read MAX_ADDR CONFIG]\<rparr>)
   \<and> max17048_clear_alerts sim_i2c (sim_port alerted []) =
     (True, \<lparr>hw = \<lparr>regs = alerted(STATUS := 0x0055, CONFIG := 0x97DF), script = []\<rparr>,
        calls = [I2C_Read MAX_ADDR STATUS, I2C_Write MAX_ADDR STATUS (SWAP16 0x0055),
                 I2C_Read MAX_ADDR CONFIG, I2C_Write MAX_ADDR CONFIG (SWAP16 0x97DF)]\<rparr>)"
proof -
  have s: "alerted STATUS = 0x2A55" and c: "alerted CONFIG = 0x97FF" and ne: "CONFIG \<noteq> STATUS"
    by (simp_all add: alerted_def STATUS_def CONFIG_def)
  show ?thesis
    using
      clear_alerts_steps [of sim_i2c "sim_port alerted [False]" "\<lparr>regs = alerted, script = []\<rparr>"]
      clear_alerts_steps [of sim_i2c "sim_port alerted [True, False]"
        "\<lparr>regs = alerted, script = [False]\<rparr>" "0x2A55" "\<lparr>regs = alerted, script = []\<rparr>"]
      clear_alerts_steps [of sim_i2c "sim_port alerted [True, True, False]"
        "\<lparr>regs = alerted, script = [True, False]\<rparr>" "0x2A55"
        "\<lparr>regs = alerted(STATUS := 0x0055), script = [False]\<rparr>"
        "\<lparr>regs = alerted(STATUS := 0x0055), script = []\<rparr>"]
      clear_alerts_steps [of sim_i2c "sim_port alerted []"
        "\<lparr>regs = alerted, script = []\<rparr>" "0x2A55"
        "\<lparr>regs = alerted(STATUS := 0x0055), script = []\<rparr>"
        "\<lparr>regs = alerted(STATUS := 0x0055), script = []\<rparr>" "0x97FF" True
        "\<lparr>regs = alerted(STATUS := 0x0055, CONFIG := 0x97DF), script = []\<rparr>"]
    by (simp add: sim_defs SWAP16_SWAP16 s c ne)
qed

text \<open>
  What \<open>max17048_get_alerts\<close> does on any transport, given a pointer that is not null: it
  returns true, and the mask it stores is the low six bits of the upper byte of \<open>data\<close>.
\<close>

lemma get_alerts_returns_true: "fst (max17048_get_alerts T uninit (Some a) p) = True"
  by (simp add: max17048_get_alerts_def Let_def split: prod.split)

lemma alert_field:
  "(ucast (drop_bit ALRT_STATUS_POS ((ucast (d::u16) :: uint) AND ALRT_STATUS_MSK)) :: u8) =
     ucast (drop_bit 8 d) AND 0x3F"
proof -
  have m: "ALRT_STATUS_MSK = push_bit 8 (mask 6)"
    by (simp add: ALRT_STATUS_MSK_def ALRT_STATUS_POS_def mask_eq_exp_minus_1)
  have m8: "(0x3F :: u8) = mask 6" by (simp add: mask_eq_exp_minus_1)
  show ?thesis
    unfolding m m8 ALRT_STATUS_POS_def
    by (rule bit_word_eqI) (auto simp: bit_simps)
qed

lemma get_alerts_store:
  "fst (snd (max17048_get_alerts T uninit (Some a) p)) =
     Some (a, ucast (drop_bit 8 (case fst (read_reg T STATUS p) of None \<Rightarrow> uninit | Some d \<Rightarrow> d))
              AND 0x3F)"
  by (simp only: max17048_get_alerts_def alert_field) (simp add: Let_def split: prod.split)

lemma get_alerts_six_bits:
  assumes "fst (snd (max17048_get_alerts T uninit (Some a) p)) = Some (b, m)"
  shows "m AND NOT 0x3F = 0"
proof -
  have z: "(x AND 0x3F) AND NOT 0x3F = 0" for x :: u8
    by (rule bit_word_eqI) (auto simp: bit_simps)
  from assms obtain x :: u8 where "m = x AND 0x3F"
    unfolding get_alerts_store by blast
  then show ?thesis by (simp only: z)
qed

text \<open>
  With alerts pending and no transport fault, the getter stores the six alert bits of
  STATUS and clears them and the alert bit of CONFIG.
\<close>

lemma get_alerts_pending:
  "max17048_get_alerts sim_i2c 0 (Some 0) (sim_port alerted []) =
     (True, Some (0, 0x2A),
      \<lparr>hw = \<lparr>regs = alerted(STATUS := 0x0055, CONFIG := 0x97DF), script = []\<rparr>,
         calls = [I2C_Read MAX_ADDR STATUS,
                  I2C_Read MAX_ADDR STATUS, I2C_Write MAX_ADDR STATUS (SWAP16 0x0055),
                  I2C_Read MAX_ADDR CONFIG, I2C_Write MAX_ADDR CONFIG (SWAP16 0x97DF)]\<rparr>)"
  by (simp add: max17048_get_alerts_def max17048_clear_alerts_def modify_reg_def read_reg_def
      write_reg_def sim_defs SWAP16_SWAP16 alerted_def STATUS_def CONFIG_def
      ALRT_STATUS_MSK_def ALRT_STATUS_POS_def ALRT_BIT_MSK_def ALRT_BIT_POS_def)

text \<open>
  C1. When a transport step of \<open>max17048_get_alerts\<close> fails, the operation is to
  return failure. The code does not: it ends in \<^verbatim>\<open>return true;\<close>. Run with a STATUS read
  that fails, it returns true and stores a mask taken from the uninitialised \<open>data\<close>
  (\<open>0xABCD\<close> here, giving \<open>0x2B\<close>) while STATUS holds \<open>0x2A00\<close>; run with a STATUS read
  that succeeds and a clearing step that fails, it returns true as well.
\<close>

theorem get_alerts_reports_success_on_failure:
  "max17048_get_alerts sim_i2c 0xABCD (Some 0) (sim_port (blank(STATUS := 0x2A00)) [False]) =
     (True, Some (0, 0x2B),
      \<lparr>hw = \<lparr>regs = blank(STATUS := 0x2A00), script = []\<rparr>, calls = [I2C_Read MAX_ADDR STATUS]\<rparr>)
   \<and> max17048_clear_alerts sim_i2c \<lparr>hw = \<lparr>regs = alerted, script = [False]\<rparr>,
        calls = [I2C_Read MAX_ADDR STATUS]\<rparr> =
     (False, \<lparr>hw = \<lparr>regs = alerted, script = []\<rparr>,
        calls = [I2C_Read MAX_ADDR STATUS, I2C_Read MAX_ADDR STATUS]\<rparr>)
   \<and> max17048_get_alerts sim_i2c 0xABCD (Some 0) (sim_port alerted [True, False]) =
     (True, Some (0, 0x2A),
      \<lparr>hw = \<lparr>regs = alerted, script = []\<rparr>,
         calls = [I2C_Read MAX_ADDR STATUS, I2C_Read MAX_ADDR STATUS]\<rparr>)"
  by (simp add: max17048_get_alerts_def max17048_clear_alerts_def modify_reg_def read_reg_def
      sim_defs SWAP16_SWAP16 alerted_def STATUS_def CONFIG_def
      ALRT_STATUS_MSK_def ALRT_STATUS_POS_def)

text \<open>
  C2. The mask \<open>max17048_get_alerts\<close> returns is to hold none but the six named flags
  \<open>0x01\<close>, \<open>0x02\<close>, \<open>0x04\<close>, \<open>0x10\<close>, \<open>0x20\<close> and \<open>0x80\<close>. The code returns bits 8 to 13 of
  STATUS shifted down, a value within \<open>0x3F\<close>: with STATUS at \<open>0x0800\<close> it stores \<open>0x08\<close>,
  which shares no bit with any of the six flags of max17048.h.
\<close>

theorem get_alerts_unnamed_bit:
  "max17048_get_alerts sim_i2c 0 (Some 0) (sim_port (blank(STATUS := 0x0800)) []) =
     (True, Some (0, 0x08),
      \<lparr>hw = \<lparr>regs = blank(STATUS := 0, CONFIG := 0), script = []\<rparr>,
         calls = [I2C_Read MAX_ADDR STATUS,
                  I2C_Read MAX_ADDR STATUS, I2C_Write MAX_ADDR STATUS (SWAP16 0),
                  I2C_Read MAX_ADDR CONFIG, I2C_Write MAX_ADDR CONFIG (SWAP16 0)]\<rparr>)
   \<and> (0x08 :: u8) AND (MAX_ALERT_RESET OR MAX_ALERT_OVERVOLTED OR MAX_ALERT_UNDERVOLTED OR
        MAX_ALERT_VOLTAGE_RESET OR MAX_ALERT_SOC_LOW OR MAX_ALERT_SOC_CHANGE) = 0"
  by (simp add: max17048_get_alerts_def max17048_clear_alerts_def modify_reg_def read_reg_def
      write_reg_def sim_defs SWAP16_SWAP16 blank_def STATUS_def CONFIG_def
      ALRT_STATUS_MSK_def ALRT_STATUS_POS_def ALRT_BIT_MSK_def ALRT_BIT_POS_def
      MAX_ALERT_RESET_def MAX_ALERT_OVERVOLTED_def MAX_ALERT_UNDERVOLTED_def
      MAX_ALERT_VOLTAGE_RESET_def MAX_ALERT_SOC_LOW_def MAX_ALERT_SOC_CHANGE_def)

end
